theory Spec2Isabelle
  imports Main "HOL-Library.Sublist"
begin

section \<open>Responders and respond decorators of autorest/responder.go\<close>

text \<open>
  A shallow embedding of \<^verbatim>\<open>autorest/responder.go\<close>. A Go \<^verbatim>\<open>*http.Response\<close> is a
  pointer: \<open>None\<close> is nil, \<open>Some a\<close> refers to the response stored at address \<open>a\<close>.
  Responders receive the pointer and act on the objects behind it, so the objects live
  in an explicit store that every responder takes and hands back. A nil dereference is a
  Go panic; it unwinds through every enclosing responder (the file has no \<^verbatim>\<open>recover\<close>
  and no \<^verbatim>\<open>defer\<close>), so it is an outcome of its own.
\<close>

subsection \<open>Data\<close>

type_synonym addr = nat

text \<open>\<^verbatim>\<open>http.Request\<close>, the two fields the file reads. \<open>URL\<close> is the text that
  \<^verbatim>\<open>%v\<close> prints for the \<^verbatim>\<open>*url.URL\<close>.\<close>

record http_request =
  Method :: string
  URL :: string

text \<open>\<^verbatim>\<open>http.Response\<close>. \<open>Header\<close> is a Go map and may be nil; \<open>Body\<close> is an
  \<^verbatim>\<open>io.ReadCloser\<close> interface value, nil or a reference to a stream object;
  \<open>Request\<close> is a pointer and may be nil.\<close>

record http_response =
  Status :: string
  StatusCode :: int
  Header :: "(string \<rightharpoonup> string list) option"
  Body :: "addr option"
  Request :: "http_request option"

text \<open>The stream behind an \<^verbatim>\<open>io.ReadCloser\<close>: the bytes not read yet and the number
  of times \<^verbatim>\<open>Close\<close> has been called on it.\<close>

record body =
  content :: string
  closes :: nat

text \<open>The calls that leave the file and touch the response, in the order they are
  made: \<^verbatim>\<open>resp.Body.Close()\<close>, \<^verbatim>\<open>ResponseHasStatusCode(resp, codes...)\<close> and
  \<^verbatim>\<open>d.Decode(v)\<close> on a decoder reading \<^verbatim>\<open>resp.Body\<close>.\<close>

datatype call =
  BodyClose addr
| HasStatusCode "addr option" "int list"
| JSONDecode "addr option" addr

text \<open>The store: responses, body streams, the values that decoding targets point
  to, and the log of calls.\<close>

record 'v world =
  responses :: "addr \<Rightarrow> http_response"
  streams :: "addr \<Rightarrow> body"
  targets :: "addr \<Rightarrow> 'v"
  calls :: "call list"

text \<open>Go's \<^verbatim>\<open>error\<close> values that occur: the error built by
  \<^verbatim>\<open>NewErrorWithStatusCode\<close> (package, method, status code, message) and an error
  that is only a message (\<^verbatim>\<open>fmt.Errorf\<close>, or whatever an inner responder returns).\<close>

datatype error =
  DetailedError string string int string
| ErrorString string

text \<open>What a call does: it returns an error or nil (\<open>None\<close>), or it panics. Both
  leave a store behind.\<close>

datatype 'w outcome =
  Returned "error option" 'w
| Panicked 'w

type_synonym 'v Responder = "addr option \<Rightarrow> 'v world \<Rightarrow> 'v world outcome"

type_synonym 'v RespondDecorator = "'v Responder \<Rightarrow> 'v Responder"

subsection \<open>The mechanism\<close>

text \<open>\<^verbatim>\<open>for _, decorate := range decorators { r = decorate(r) }; return r\<close>\<close>

fun DecorateResponder :: "'v Responder \<Rightarrow> 'v RespondDecorator list \<Rightarrow> 'v Responder" where
  "DecorateResponder r [] = r"
| "DecorateResponder r (decorate # decorators) = DecorateResponder (decorate r) decorators"

text \<open>The base responder of \<^verbatim>\<open>CreateResponder\<close>:
  \<^verbatim>\<open>func(r *http.Response) error { return nil }\<close>\<close>

definition base_responder :: "'v Responder" where
  "base_responder r w = Returned None w"

definition CreateResponder :: "'v RespondDecorator list \<Rightarrow> 'v Responder" where
  "CreateResponder decorators = DecorateResponder base_responder decorators"

definition Respond :: "addr option \<Rightarrow> 'v RespondDecorator list \<Rightarrow> 'v world \<Rightarrow> 'v world outcome" where
  "Respond r decorators w =
     (case r of
        None \<Rightarrow> Returned None w
      | Some a \<Rightarrow> CreateResponder decorators r w)"

text \<open>The spec's wording of composition: iterate over the sequence in the given order
  and replace the accumulated responder \<open>r\<close> with \<open>d r\<close> at each step.\<close>

definition compose_spec :: "'v Responder \<Rightarrow> 'v RespondDecorator list \<Rightarrow> 'v Responder" where
  "compose_spec r ds = foldl (\<lambda>acc d. d acc) r ds"

text \<open>The nesting \<open>dn (\<dots> (d2 (d1 r)))\<close> written from the outside in.\<close>

fun nested :: "'v Responder \<Rightarrow> 'v RespondDecorator list \<Rightarrow> 'v Responder" where
  "nested r [] = r"
| "nested r (d # ds) = d (nested r ds)"

subsection \<open>Standard decorators\<close>

definition ByIgnoring :: "'v RespondDecorator" where
  "ByIgnoring r = (\<lambda>resp w. r resp w)"

text \<open>\<^verbatim>\<open>resp.Body.Close()\<close> on the stream at \<open>b\<close>: the call is counted on the stream and
  logged. The error \<^verbatim>\<open>Close\<close> returns is dropped by both callers.\<close>

definition Close :: "addr \<Rightarrow> 'v world \<Rightarrow> 'v world" where
  "Close b w =
     w\<lparr>streams := (streams w)(b := (streams w b)\<lparr>closes := Suc (closes (streams w b))\<rparr>),
       calls := calls w @ [BodyClose b]\<rparr>"

text \<open>\<^verbatim>\<open>err := r.Respond(resp); if resp != nil && resp.Body != nil { resp.Body.Close() };
  return err\<close>. The response is read after the inner call, in the store that call left.\<close>

definition ByClosing :: "'v RespondDecorator" where
  "ByClosing r resp w =
     (case r resp w of
        Panicked w1 \<Rightarrow> Panicked w1
      | Returned err w1 \<Rightarrow>
          (case resp of
             None \<Rightarrow> Returned err w1
           | Some a \<Rightarrow>
               (case Body (responses w1 a) of
                  None \<Rightarrow> Returned err w1
                | Some b \<Rightarrow> Returned err (Close b w1))))"

text \<open>\<^verbatim>\<open>if err != nil && resp != nil && resp.Body != nil { resp.Body.Close() }\<close>\<close>

definition ByClosingIfError :: "'v RespondDecorator" where
  "ByClosingIfError r resp w =
     (case r resp w of
        Panicked w1 \<Rightarrow> Panicked w1
      | Returned err w1 \<Rightarrow>
          (case err of
             None \<Rightarrow> Returned err w1
           | Some e \<Rightarrow>
               (case resp of
                  None \<Rightarrow> Returned err w1
                | Some a \<Rightarrow>
                    (case Body (responses w1 a) of
                       None \<Rightarrow> Returned err w1
                     | Some b \<Rightarrow> Returned err (Close b w1)))))"

text \<open>What \<^verbatim>\<open>json.NewDecoder(io.TeeReader(resp.Body, &b)).Decode(v)\<close> does is the work of
  Go's \<^verbatim>\<open>encoding/json\<close> and \<^verbatim>\<open>io\<close>, not of this file; it is a parameter. Given the
  stream and the value \<open>v\<close> points to, a decoder says how many bytes it read from the
  stream (they are what the tee copies into \<^verbatim>\<open>b\<close>), the message of the error it
  returns, if any, and the value it leaves behind \<open>v\<close>.\<close>

record 'v decoded =
  nread :: nat
  derr :: "string option"
  dval :: 'v

type_synonym 'v decoder = "body \<Rightarrow> 'v \<Rightarrow> 'v decoded"

text \<open>\<^verbatim>\<open>fmt.Errorf("Error (%v) occurred decoding JSON (\"%s\")", err, b.String())\<close>;
  \<open>CHR 0x22\<close> is the double quote.\<close>

definition decode_error :: "string \<Rightarrow> string \<Rightarrow> error" where
  "decode_error err raw =
     ErrorString (''Error ('' @ err @ '') occurred decoding JSON ('' @ [CHR 0x22] @ raw @ [CHR 0x22] @ '')'')"

text \<open>\<^verbatim>\<open>ByUnmarshallingJSON(v)\<close>. On a nil \<open>resp\<close> the expression \<^verbatim>\<open>resp.Body\<close> panics; on a
  nil \<open>Body\<close> the tee reader is built around nil and \<^verbatim>\<open>Decode\<close> panics at its first
  read.\<close>

definition ByUnmarshallingJSON :: "'v decoder \<Rightarrow> addr \<Rightarrow> 'v RespondDecorator" where
  "ByUnmarshallingJSON Decode v r resp w =
     (case r resp w of
        Panicked w1 \<Rightarrow> Panicked w1
      | Returned err w1 \<Rightarrow>
          (case err of
             Some e \<Rightarrow> Returned err w1
           | None \<Rightarrow>
               (case resp of
                  None \<Rightarrow> Panicked w1
                | Some a \<Rightarrow>
                    (let w2 = w1\<lparr>calls := calls w1 @ [JSONDecode (Body (responses w1 a)) v]\<rparr>
                     in case Body (responses w1 a) of
                          None \<Rightarrow> Panicked w2
                        | Some b \<Rightarrow>
                            (let s = streams w2 b;
                                 d = Decode s (targets w2 v);
                                 raw = take (nread d) (content s);
                                 w3 = w2\<lparr>streams := (streams w2)(b := s\<lparr>content := drop (nread d) (content s)\<rparr>),
                                         targets := (targets w2)(v := dval d)\<rparr>
                             in case derr d of
                                  None \<Rightarrow> Returned None w3
                                | Some m \<Rightarrow> Returned (Some (decode_error m raw)) w3)))))"

text \<open>Modelled from the spec: \<^verbatim>\<open>ResponseHasStatusCode\<close> is defined in another file of the
  package, which is not among the sources. The spec says of it only that the check is
  whether "the response's status code is one of codes". A nil response has no status
  code that could be among them; the caller below dereferences \<open>resp\<close> right after a
  negative answer, so a helper that faulted on nil instead would give the same outcome
  there.\<close>

definition ResponseHasStatusCode :: "addr option \<Rightarrow> int list \<Rightarrow> 'v world \<Rightarrow> bool" where
  "ResponseHasStatusCode resp codes w =
     (case resp of
        None \<Rightarrow> False
      | Some a \<Rightarrow> StatusCode (responses w a) \<in> set codes)"

text \<open>Modelled from the spec: \<^verbatim>\<open>NewErrorWithStatusCode\<close> is defined in another file of the
  package, which is not among the sources. The spec says that the error "carries the
  request method, request URL, and status line"; the model keeps every argument of the
  call: package, method name, status code, and the message, which is the format
  \<^verbatim>\<open>"%v %v failed with %s"\<close> filled with its three arguments.\<close>

definition NewErrorWithStatusCode :: "string \<Rightarrow> string \<Rightarrow> int \<Rightarrow> string \<Rightarrow> string \<Rightarrow> string \<Rightarrow> error" where
  "NewErrorWithStatusCode packageType method statusCode reqMethod reqURL status =
     DetailedError packageType method statusCode (reqMethod @ '' '' @ reqURL @ '' failed with '' @ status)"

text \<open>\<^verbatim>\<open>WithErrorUnlessStatusCode(codes...)\<close>. The arguments of the error are evaluated in
  order: \<^verbatim>\<open>resp.StatusCode\<close> panics on a nil \<open>resp\<close>, \<^verbatim>\<open>resp.Request.Method\<close> on a nil
  \<open>Request\<close>. \<^verbatim>\<open>&&\<close> does not call \<^verbatim>\<open>ResponseHasStatusCode\<close> when \<open>err\<close> is not nil.\<close>

definition WithErrorUnlessStatusCode :: "int list \<Rightarrow> 'v RespondDecorator" where
  "WithErrorUnlessStatusCode codes r resp w =
     (case r resp w of
        Panicked w1 \<Rightarrow> Panicked w1
      | Returned err w1 \<Rightarrow>
          (case err of
             Some e \<Rightarrow> Returned err w1
           | None \<Rightarrow>
               (let w2 = w1\<lparr>calls := calls w1 @ [HasStatusCode resp codes]\<rparr>
                in if ResponseHasStatusCode resp codes w2 then Returned None w2
                   else (case resp of
                           None \<Rightarrow> Panicked w2
                         | Some a \<Rightarrow>
                             (case Request (responses w2 a) of
                                None \<Rightarrow> Panicked w2
                              | Some req \<Rightarrow>
                                  Returned (Some (NewErrorWithStatusCode ''autorest''
                                      ''WithErrorUnlessStatusCode'' (StatusCode (responses w2 a))
                                      (Method req) (URL req) (Status (responses w2 a)))) w2)))))"

text \<open>\<^verbatim>\<open>http.StatusOK\<close>\<close>

definition StatusOK :: int where
  "StatusOK = 200"

definition WithErrorUnlessOK :: "'v RespondDecorator" where
  "WithErrorUnlessOK = WithErrorUnlessStatusCode [StatusOK]"

subsection \<open>Header accessors\<close>

text \<open>\<^verbatim>\<open>http.CanonicalHeaderKey\<close> of Go's library: the first letter and every letter after a
  hyphen in upper case, the other letters in lower case; a key with a space or a byte
  that is not a header field byte (an RFC 7230 token character) comes back unchanged.\<close>

definition isLower :: "char \<Rightarrow> bool" where
  "isLower c = (97 \<le> (of_char c :: nat) \<and> (of_char c :: nat) \<le> 122)"

definition isUpper :: "char \<Rightarrow> bool" where
  "isUpper c = (65 \<le> (of_char c :: nat) \<and> (of_char c :: nat) \<le> 90)"

definition isDigit :: "char \<Rightarrow> bool" where
  "isDigit c = (48 \<le> (of_char c :: nat) \<and> (of_char c :: nat) \<le> 57)"

definition toUpper :: "char \<Rightarrow> char" where
  "toUpper c = (if isLower c then char_of ((of_char c :: nat) - 32) else c)"

definition toLower :: "char \<Rightarrow> char" where
  "toLower c = (if isUpper c then char_of ((of_char c :: nat) + 32) else c)"

definition validHeaderFieldByte :: "char \<Rightarrow> bool" where
  "validHeaderFieldByte c =
     (isLower c \<or> isUpper c \<or> isDigit c
      \<or> (of_char c :: nat) \<in> set [33, 35, 36, 37, 38, 39, 42, 43, 45, 46, 94, 95, 96, 124, 126])"

fun canonicalize :: "bool \<Rightarrow> string \<Rightarrow> string" where
  "canonicalize upper [] = []"
| "canonicalize upper (c # cs) =
     (let c' = (if upper \<and> isLower c then toUpper c
                else if \<not> upper \<and> isUpper c then toLower c
                else c)
      in c' # canonicalize (c' = CHR ''-'') cs)"

definition CanonicalHeaderKey :: "string \<Rightarrow> string" where
  "CanonicalHeaderKey s = (if list_all validHeaderFieldByte s then canonicalize True s else s)"

text \<open>\<^verbatim>\<open>if resp != nil && resp.Header != nil { return resp.Header[http.CanonicalHeaderKey(header)] };
  return nil\<close>. Indexing a Go map at a key it does not hold gives the nil slice; nil and
  the empty slice are both the empty list.\<close>

definition ExtractHeader :: "string \<Rightarrow> addr option \<Rightarrow> 'v world \<Rightarrow> string list" where
  "ExtractHeader header resp w =
     (case resp of
        None \<Rightarrow> []
      | Some a \<Rightarrow>
          (case Header (responses w a) of
             None \<Rightarrow> []
           | Some h \<Rightarrow>
               (case h (CanonicalHeaderKey header) of
                  None \<Rightarrow> []
                | Some vs \<Rightarrow> vs)))"

definition ExtractHeaderValue :: "string \<Rightarrow> addr option \<Rightarrow> 'v world \<Rightarrow> string" where
  "ExtractHeaderValue header resp w =
     (let h = ExtractHeader header resp w
      in if length h > 0 then h ! 0 else '''')"

subsection \<open>Reading outcomes and the call log\<close>

definition store_of :: "'w outcome \<Rightarrow> 'w" where
  "store_of out = (case out of Returned err w \<Rightarrow> w | Panicked w \<Rightarrow> w)"

definition returns_nil :: "'w outcome \<Rightarrow> bool" where
  "returns_nil out = (case out of Returned err w \<Rightarrow> err = None | Panicked w \<Rightarrow> False)"

definition returns_error :: "'w outcome \<Rightarrow> bool" where
  "returns_error out = (case out of Returned err w \<Rightarrow> err \<noteq> None | Panicked w \<Rightarrow> False)"

definition panics :: "'w outcome \<Rightarrow> bool" where
  "panics out = (case out of Returned err w \<Rightarrow> False | Panicked w \<Rightarrow> True)"

text \<open>\<open>precedes x y xs\<close>: some occurrence of \<open>x\<close> in \<open>xs\<close> comes before some occurrence of
  \<open>y\<close>.\<close>

fun precedes :: "'a \<Rightarrow> 'a \<Rightarrow> 'a list \<Rightarrow> bool" where
  "precedes x y [] = False"
| "precedes x y (z # zs) = (if z = x then y \<in> set zs else precedes x y zs)"

subsection \<open>Concrete inputs\<close>

text \<open>A decoding target with one integer field, Go's
  \<^verbatim>\<open>struct { A int `json:"a"` }\<close>.\<close>

datatype target = Target int

text \<open>An instance of the decoder parameter for evaluating \<open>ByUnmarshallingJSON\<close> on
  concrete payloads. It stands for \<^verbatim>\<open>encoding/json\<close> on a \<open>target\<close> and on short
  documents only: it reads the whole payload, accepts the documents \<^verbatim>\<open>{"a":<digits>}\<close>,
  reports \<^verbatim>\<open>unexpected EOF\<close> on a proper prefix of such a document and an invalid
  character otherwise.\<close>

fun strip_prefix :: "string \<Rightarrow> string \<Rightarrow> string option" where
  "strip_prefix [] s = Some s"
| "strip_prefix (p # ps) [] = None"
| "strip_prefix (p # ps) (c # cs) = (if p = c then strip_prefix ps cs else None)"

definition digits_value :: "string \<Rightarrow> int" where
  "digits_value ds = foldl (\<lambda>acc c. 10 * acc + (int (of_char c) - 48)) 0 ds"

definition decode_target :: "target decoder" where
  "decode_target s v =
     (let payload = content s; n = length payload
      in case strip_prefix ([CHR ''{'', CHR 0x22, CHR ''a'', CHR 0x22, CHR '':'']) payload of
           None \<Rightarrow>
             (if prefix payload [CHR ''{'', CHR 0x22, CHR ''a'', CHR 0x22, CHR '':'']
              then \<lparr>nread = n, derr = Some ''unexpected EOF'', dval = v\<rparr>
              else \<lparr>nread = n, derr = Some ''invalid character'', dval = v\<rparr>)
         | Some rest \<Rightarrow>
             (let ds = takeWhile isDigit rest; tl = dropWhile isDigit rest
              in if tl = [] then \<lparr>nread = n, derr = Some ''unexpected EOF'', dval = v\<rparr>
                 else if ds \<noteq> [] \<and> tl = ''}''
                 then \<lparr>nread = n, derr = None, dval = Target (digits_value ds)\<rparr>
                 else \<lparr>nread = n, derr = Some ''invalid character'', dval = v\<rparr>))"

definition example_request :: http_request where
  "example_request = \<lparr>Method = ''GET'', URL = ''https://example.com/items''\<rparr>"

text \<open>A response with the given status code and status line, the header
  \<^verbatim>\<open>X-Test: v1, v2\<close>, the body stream at address 7 and the given request.\<close>

definition example_response :: "int \<Rightarrow> string \<Rightarrow> http_request option \<Rightarrow> http_response" where
  "example_response code line req =
     \<lparr>Status = line, StatusCode = code,
      Header = Some [''X-Test'' \<mapsto> [''v1'', ''v2'']],
      Body = Some 7, Request = req\<rparr>"

text \<open>A store holding the response at every address, an unclosed stream with the given
  payload, targets \<open>Target 0\<close> and an empty log.\<close>

definition example_world :: "http_response \<Rightarrow> string \<Rightarrow> target world" where
  "example_world resp payload =
     \<lparr>responses = (\<lambda>a. resp),
      streams = (\<lambda>b. \<lparr>content = payload, closes = 0\<rparr>),
      targets = (\<lambda>v. Target 0),
      calls = []\<rparr>"

text \<open>An inner responder that fails without touching anything.\<close>

definition failing_responder :: "'v Responder" where
  "failing_responder resp w = Returned (Some (ErrorString ''inner failed'')) w"

text \<open>The payloads \<^verbatim>\<open>{"a":1}\<close> and \<^verbatim>\<open>{"a":\<close> of the spec's example.\<close>

definition complete_payload :: string where
  "complete_payload = [CHR ''{'', CHR 0x22, CHR ''a'', CHR 0x22, CHR '':'', CHR ''1'', CHR ''}'']"

definition truncated_payload :: string where
  "truncated_payload = [CHR ''{'', CHR 0x22, CHR ''a'', CHR 0x22, CHR '':'']"

section \<open>Theorems\<close>

lemma DecorateResponder_foldl: "DecorateResponder r ds = foldl (\<lambda>acc d. d acc) r ds"
  by (induction ds arbitrary: r) simp_all

lemma DecorateResponder_snoc: "DecorateResponder r (ds @ [d]) = d (DecorateResponder r ds)"
  by (simp add: DecorateResponder_foldl)

lemma nested_rev: "nested r (rev ds) = DecorateResponder r ds"
proof (induction ds rule: rev_induct)
  case Nil
  show ?case by simp
next
  case (snoc d ds)
  then show ?case by (simp add: DecorateResponder_snoc)
qed

text \<open>
  C1. For every base responder and every list of decorators, \<open>DecorateResponder\<close> is the
  iteration that replaces the accumulated responder \<open>r\<close> by \<open>d r\<close> for each decorator in
  list order; so the last decorator of the list is the outermost wrapper
  (\<open>dn (\<dots> (d1 r))\<close>), and \<open>CreateResponder\<close> is \<open>DecorateResponder\<close> on a base responder
  that returns success on every response and leaves the store alone.
\<close>

theorem C1_DecorateResponder_order:
  "DecorateResponder r ds = compose_spec r ds
   \<and> DecorateResponder r (ds @ [d]) = d (DecorateResponder r ds)
   \<and> DecorateResponder r ds = nested r (rev ds)
   \<and> DecorateResponder r [d1, d2, d3] = d3 (d2 (d1 r))
   \<and> CreateResponder ds = DecorateResponder base_responder ds
   \<and> base_responder resp w = Returned None w"
  by (simp add: compose_spec_def DecorateResponder_foldl nested_rev CreateResponder_def
      base_responder_def)

text \<open>
  C3. On a nil response, \<open>Respond\<close> returns success for every list of decorators, and the
  store (the call log included) is the one it was given: no responder built by a
  decorator has run, whatever it would have done.
\<close>

theorem C3_Respond_nil: "Respond None decorators w = Returned None w"
  by (simp add: Respond_def)

lemma Close_closes: "closes (streams (Close b w) b) = Suc (closes (streams w b))"
  by (simp add: Close_def)

lemma Close_calls: "calls (Close b w) = calls w @ [BodyClose b]"
  by (simp add: Close_def)

lemma Close_responses: "responses (Close b w) = responses w"
  by (simp add: Close_def)

text \<open>
  C6. Whenever the inner responder returns, the responder built by \<open>ByClosing\<close> returns
  the same result, error or nil, and never one of its own. If the response and its body
  are not nil in the store the inner call left, the body is closed once, after the inner
  call: the store is the inner call's store with that one \<open>Close\<close>. Otherwise the store
  is the inner call's store.
\<close>

theorem C6_ByClosing:
  assumes inner: "r resp w = Returned err w1"
  shows "\<exists>w2. ByClosing r resp w = Returned err w2
           \<and> (\<forall>a b. resp = Some a \<and> Body (responses w1 a) = Some b \<longrightarrow>
                 w2 = Close b w1
                 \<and> closes (streams w2 b) = Suc (closes (streams w1 b))
                 \<and> calls w2 = calls w1 @ [BodyClose b])
           \<and> (resp = None \<or> (\<exists>a. resp = Some a \<and> Body (responses w1 a) = None) \<longrightarrow> w2 = w1)"
proof (cases resp)
  case None
  with inner show ?thesis by (simp add: ByClosing_def)
next
  case (Some a)
  show ?thesis
  proof (cases "Body (responses w1 a)")
    case None
    with inner Some show ?thesis by (simp add: ByClosing_def)
  next
    case (Some b)
    with inner \<open>resp = Some a\<close> show ?thesis
      by (simp add: ByClosing_def Close_closes Close_calls)
  qed
qed

theorem C6_ByClosing_witness:
  "ByClosing failing_responder (Some 0)
       (example_world (example_response 200 ''200 OK'' None) ''{}'')
     = Returned (Some (ErrorString ''inner failed''))
         (Close 7 (example_world (example_response 200 ''200 OK'' None) ''{}''))
   \<and> closes (streams (Close 7 (example_world (example_response 200 ''200 OK'' None) ''{}'')) 7) = 1
   \<and> ByClosing base_responder None (example_world (example_response 200 ''200 OK'' None) ''{}'')
     = Returned None (example_world (example_response 200 ''200 OK'' None) ''{}'')"
proof -
  let ?w = "example_world (example_response 200 ''200 OK'' None) ''{}''"
  have h1: "failing_responder (Some 0) ?w = Returned (Some (ErrorString ''inner failed'')) ?w"
    by (simp add: failing_responder_def)
  have h2: "base_responder None ?w = Returned None ?w"
    by (simp add: base_responder_def)
  have b: "Body (responses ?w 0) = Some 7"
    by (simp add: example_world_def example_response_def)
  from C6_ByClosing [where r = failing_responder and resp = "Some 0" and w = ?w, OF h1]
    C6_ByClosing [where r = base_responder and resp = None and w = ?w, OF h2] b
  show ?thesis
    by (auto simp add: example_world_def)
qed

text \<open>
  C7. Whenever the inner responder returns, the responder built by \<open>ByClosingIfError\<close>
  returns the same result. It closes the body, once and after the inner call, if the
  inner call returned an error and the response and its body are not nil; if the inner
  call succeeded, or the response or its body is nil, the store is the one the inner
  call left, so nothing was closed.
\<close>

theorem C7_ByClosingIfError:
  assumes inner: "r resp w = Returned err w1"
  shows "\<exists>w2. ByClosingIfError r resp w = Returned err w2
           \<and> (\<forall>a b. err \<noteq> None \<and> resp = Some a \<and> Body (responses w1 a) = Some b \<longrightarrow>
                 w2 = Close b w1
                 \<and> closes (streams w2 b) = Suc (closes (streams w1 b))
                 \<and> calls w2 = calls w1 @ [BodyClose b])
           \<and> (err = None \<or> resp = None \<or> (\<exists>a. resp = Some a \<and> Body (responses w1 a) = None)
                 \<longrightarrow> w2 = w1)"
proof (cases err)
  case None
  with inner show ?thesis by (simp add: ByClosingIfError_def)
next
  case (Some e)
  note err = this
  show ?thesis
  proof (cases resp)
    case None
    with inner err show ?thesis by (simp add: ByClosingIfError_def)
  next
    case (Some a)
    note resp = this
    show ?thesis
    proof (cases "Body (responses w1 a)")
      case None
      with inner err resp show ?thesis by (simp add: ByClosingIfError_def)
    next
      case (Some b)
      with inner err resp show ?thesis
        by (simp add: ByClosingIfError_def Close_closes Close_calls)
    qed
  qed
qed

theorem C7_ByClosingIfError_witness:
  "ByClosingIfError failing_responder (Some 0)
       (example_world (example_response 200 ''200 OK'' None) ''{}'')
     = Returned (Some (ErrorString ''inner failed''))
         (Close 7 (example_world (example_response 200 ''200 OK'' None) ''{}''))
   \<and> closes (streams (Close 7 (example_world (example_response 200 ''200 OK'' None) ''{}'')) 7) = 1
   \<and> ByClosingIfError base_responder (Some 0)
       (example_world (example_response 200 ''200 OK'' None) ''{}'')
     = Returned None (example_world (example_response 200 ''200 OK'' None) ''{}'')"
proof -
  let ?w = "example_world (example_response 200 ''200 OK'' None) ''{}''"
  have h1: "failing_responder (Some 0) ?w = Returned (Some (ErrorString ''inner failed'')) ?w"
    by (simp add: failing_responder_def)
  have h2: "base_responder (Some 0) ?w = Returned None ?w"
    by (simp add: base_responder_def)
  have b: "Body (responses ?w 0) = Some 7"
    by (simp add: example_world_def example_response_def)
  from C7_ByClosingIfError [where r = failing_responder and resp = "Some 0" and w = ?w, OF h1]
    C7_ByClosingIfError [where r = base_responder and resp = "Some 0" and w = ?w, OF h2] b
  show ?thesis
    by (auto simp add: example_world_def)
qed

text \<open>
  C9. The responder built by \<open>WithErrorUnlessOK\<close> and the one built by
  \<open>WithErrorUnlessStatusCode\<close> for the single code 200 give the same outcome for every
  inner responder, response and store.
\<close>

theorem C9_WithErrorUnlessOK:
  "WithErrorUnlessOK r resp w = WithErrorUnlessStatusCode [200] r resp w"
  by (simp add: WithErrorUnlessOK_def StatusOK_def)

text \<open>
  C2, as the code has it. \<open>DecorateResponder\<close> makes the last decorator of the list the
  outermost one, so the chain \<open>[ByClosing, WithErrorUnlessOK]\<close> is
  \<open>WithErrorUnlessOK (ByClosing r)\<close>: require-OK is outermost. On a non-nil response with
  status code 404, a non-nil body and a non-nil request, after a base responder that
  succeeds, the chain returns the synthesized status error, the body is closed exactly
  once, and the close comes before the status check: the log grows by the close followed
  by the check.
\<close>

theorem C2_close_then_require_OK:
  assumes base: "r (Some a) w = Returned None w1"
    and status: "StatusCode (responses w1 a) = 404"
    and body: "Body (responses w1 a) = Some b"
    and req: "Request (responses w1 a) = Some req"
  shows "DecorateResponder r [ByClosing, WithErrorUnlessOK] = WithErrorUnlessOK (ByClosing r)
       \<and> (\<exists>w3. DecorateResponder r [ByClosing, WithErrorUnlessOK] (Some a) w
                 = Returned (Some (DetailedError ''autorest'' ''WithErrorUnlessStatusCode'' 404
                     (Method req @ '' '' @ URL req @ '' failed with '' @ Status (responses w1 a)))) w3
              \<and> closes (streams w3 b) = Suc (closes (streams w1 b))
              \<and> calls w3 = calls w1 @ [BodyClose b, HasStatusCode (Some a) [200]])"
proof -
  have inner: "ByClosing r (Some a) w = Returned None (Close b w1)"
    using base body by (simp add: ByClosing_def)
  have "WithErrorUnlessOK (ByClosing r) (Some a) w
      = Returned (Some (DetailedError ''autorest'' ''WithErrorUnlessStatusCode'' 404
          (Method req @ '' '' @ URL req @ '' failed with '' @ Status (responses w1 a))))
          ((Close b w1)\<lparr>calls := calls (Close b w1) @ [HasStatusCode (Some a) [200]]\<rparr>)"
    using inner status req
    by (simp add: WithErrorUnlessOK_def StatusOK_def WithErrorUnlessStatusCode_def
        ResponseHasStatusCode_def NewErrorWithStatusCode_def Let_def Close_responses)
  then show ?thesis
    by (simp add: Close_closes Close_calls)
qed

theorem C2_close_then_require_OK_witness:
  "\<exists>w3. Respond (Some 0) [ByClosing, WithErrorUnlessOK]
          (example_world (example_response 404 ''404 Not Found'' (Some example_request)) '''')
        = Returned (Some (DetailedError ''autorest'' ''WithErrorUnlessStatusCode'' 404
            ''GET https://example.com/items failed with 404 Not Found'')) w3
      \<and> closes (streams w3 7) = 1
      \<and> calls w3 = [BodyClose 7, HasStatusCode (Some 0) [200]]"
proof -
  let ?w = "example_world (example_response 404 ''404 Not Found'' (Some example_request)) ''''"
  have base: "base_responder (Some 0) ?w = Returned None ?w"
    by (simp add: base_responder_def)
  have status: "StatusCode (responses ?w 0) = 404"
    by (simp add: example_world_def example_response_def)
  have body: "Body (responses ?w 0) = Some 7"
    by (simp add: example_world_def example_response_def)
  have req: "Request (responses ?w 0) = Some example_request"
    by (simp add: example_world_def example_response_def)
  from C2_close_then_require_OK [where r = base_responder, OF base status body req]
  show ?thesis
    by (simp add: Respond_def CreateResponder_def example_world_def example_response_def
        example_request_def)
qed

text \<open>
  C2 as stated fails. On the response with status 404 the status check does not come
  before the close: the close is logged first. And when the \<open>Request\<close> of that response
  is nil, no error is returned: building the status error panics, after the body has been
  closed.
\<close>

theorem C2_require_OK_innermost_counterexample:
  "calls (store_of (Respond (Some 0) [ByClosing, WithErrorUnlessOK]
      (example_world (example_response 404 ''404 Not Found'' (Some example_request)) '''')))
     = [BodyClose 7, HasStatusCode (Some 0) [200]]
   \<and> \<not> precedes (HasStatusCode (Some 0) [200]) (BodyClose 7)
        (calls (store_of (Respond (Some 0) [ByClosing, WithErrorUnlessOK]
          (example_world (example_response 404 ''404 Not Found'' (Some example_request)) ''''))))
   \<and> panics (Respond (Some 0) [ByClosing, WithErrorUnlessOK]
        (example_world (example_response 404 ''404 Not Found'' None) ''''))
   \<and> closes (streams (store_of (Respond (Some 0) [ByClosing, WithErrorUnlessOK]
        (example_world (example_response 404 ''404 Not Found'' None) ''''))) 7) = 1"
  by (simp add: Respond_def CreateResponder_def base_responder_def ByClosing_def
      WithErrorUnlessOK_def StatusOK_def WithErrorUnlessStatusCode_def ResponseHasStatusCode_def
      NewErrorWithStatusCode_def Close_def store_of_def panics_def Let_def
      example_world_def example_response_def example_request_def)

text \<open>
  C4, as the code has it. For every inner responder and every non-nil response whose
  \<open>Request\<close> is not nil in the store the inner call left, the responder built by
  \<open>WithErrorUnlessStatusCode codes\<close> returns an error exactly when the inner call returns
  an error, which it hands on with the inner store, or the inner call succeeds and the
  status code is not among \<open>codes\<close>; the synthesized error then holds the request method,
  the request URL and the status line. On a status code among \<open>codes\<close>, after an inner
  success, it returns success.
\<close>

theorem C4_WithErrorUnlessStatusCode:
  assumes req: "Request (responses (store_of (r (Some a) w)) a) = Some req"
  shows "(returns_error (WithErrorUnlessStatusCode codes r (Some a) w)
            \<longleftrightarrow> returns_error (r (Some a) w)
               \<or> (returns_nil (r (Some a) w)
                  \<and> StatusCode (responses (store_of (r (Some a) w)) a) \<notin> set codes))
       \<and> (returns_error (r (Some a) w) \<longrightarrow>
            WithErrorUnlessStatusCode codes r (Some a) w = r (Some a) w)
       \<and> (returns_nil (r (Some a) w)
            \<and> StatusCode (responses (store_of (r (Some a) w)) a) \<notin> set codes \<longrightarrow>
            (\<exists>w2. WithErrorUnlessStatusCode codes r (Some a) w
                = Returned (Some (DetailedError ''autorest'' ''WithErrorUnlessStatusCode''
                    (StatusCode (responses (store_of (r (Some a) w)) a))
                    (Method req @ '' '' @ URL req @ '' failed with ''
                       @ Status (responses (store_of (r (Some a) w)) a)))) w2))
       \<and> (returns_nil (r (Some a) w)
            \<and> StatusCode (responses (store_of (r (Some a) w)) a) \<in> set codes \<longrightarrow>
            returns_nil (WithErrorUnlessStatusCode codes r (Some a) w))"
proof (cases "r (Some a) w")
  case (Panicked w1)
  then show ?thesis
    by (simp add: WithErrorUnlessStatusCode_def returns_error_def returns_nil_def)
next
  case (Returned err w1)
  note inner = this
  with req have req1: "Request (responses w1 a) = Some req"
    by (simp add: store_of_def)
  show ?thesis
  proof (cases err)
    case (Some e)
    with inner show ?thesis
      by (simp add: WithErrorUnlessStatusCode_def returns_error_def returns_nil_def)
  next
    case None
    with inner req1 show ?thesis
      by (simp add: WithErrorUnlessStatusCode_def returns_error_def returns_nil_def
          store_of_def ResponseHasStatusCode_def NewErrorWithStatusCode_def Let_def)
  qed
qed

theorem C4_WithErrorUnlessStatusCode_witness:
  "returns_nil (WithErrorUnlessStatusCode [200, 201] base_responder (Some 0)
      (example_world (example_response 201 ''201 Created'' (Some example_request)) ''''))
   \<and> (\<exists>w2. WithErrorUnlessStatusCode [200, 201] base_responder (Some 0)
        (example_world (example_response 500 ''500 Internal Server Error'' (Some example_request)) '''')
      = Returned (Some (DetailedError ''autorest'' ''WithErrorUnlessStatusCode'' 500
          ''GET https://example.com/items failed with 500 Internal Server Error'')) w2)
   \<and> WithErrorUnlessStatusCode [200, 201] failing_responder (Some 0)
        (example_world (example_response 201 ''201 Created'' (Some example_request)) '''')
      = Returned (Some (ErrorString ''inner failed''))
        (example_world (example_response 201 ''201 Created'' (Some example_request)) '''')"
proof -
  let ?w201 = "example_world (example_response 201 ''201 Created'' (Some example_request)) ''''"
  let ?w500 = "example_world (example_response 500 ''500 Internal Server Error'' (Some example_request)) ''''"
  have r201: "Request (responses (store_of (base_responder (Some 0) ?w201)) 0) = Some example_request"
    by (simp add: base_responder_def store_of_def example_world_def example_response_def)
  have r500: "Request (responses (store_of (base_responder (Some 0) ?w500)) 0) = Some example_request"
    by (simp add: base_responder_def store_of_def example_world_def example_response_def)
  have f201: "Request (responses (store_of (failing_responder (Some 0) ?w201)) 0) = Some example_request"
    by (simp add: failing_responder_def store_of_def example_world_def example_response_def)
  from C4_WithErrorUnlessStatusCode [where r = base_responder and codes = "[200, 201]", OF r201]
    C4_WithErrorUnlessStatusCode [where r = base_responder and codes = "[200, 201]", OF r500]
    C4_WithErrorUnlessStatusCode [where r = failing_responder and codes = "[200, 201]", OF f201]
  show ?thesis
    by (simp add: base_responder_def failing_responder_def store_of_def returns_nil_def
        returns_error_def example_world_def example_response_def example_request_def)
qed

text \<open>
  C4 as stated, for every non-nil response, fails: on a response with status 500 and a nil
  \<open>Request\<close> the inner call succeeds and 500 is not among the codes, yet no error is
  returned; \<^verbatim>\<open>resp.Request.Method\<close> panics.
\<close>

theorem C4_every_response_counterexample:
  "returns_nil (base_responder (Some 0)
      (example_world (example_response 500 ''500 Internal Server Error'' None) ''''))
   \<and> StatusCode (responses (example_world
        (example_response 500 ''500 Internal Server Error'' None) '''') 0) \<notin> set [200, 201]
   \<and> \<not> returns_error (WithErrorUnlessStatusCode [200, 201] base_responder (Some 0)
      (example_world (example_response 500 ''500 Internal Server Error'' None) ''''))
   \<and> panics (WithErrorUnlessStatusCode [200, 201] base_responder (Some 0)
      (example_world (example_response 500 ''500 Internal Server Error'' None) ''''))"
  by (simp add: WithErrorUnlessStatusCode_def base_responder_def returns_nil_def
      returns_error_def panics_def example_world_def example_response_def
      ResponseHasStatusCode_def Let_def)

text \<open>
  C10. After an inner call that returns, \<open>ByClosing\<close> and \<open>ByClosingIfError\<close> never
  panic, whatever the response and its body are. After an inner success,
  \<open>ByUnmarshallingJSON\<close> panics exactly when the response or its body is nil, and
  \<open>WithErrorUnlessStatusCode\<close> panics exactly when the response is nil, or its status code
  is not among the codes (the error branch) and its \<open>Request\<close> is nil. After an inner
  error neither of the two touches the response.
\<close>

theorem C10_nil_dereference:
  assumes inner: "r resp w = Returned err w1"
  shows "\<not> panics (ByClosing r resp w)
       \<and> \<not> panics (ByClosingIfError r resp w)
       \<and> (err = None \<longrightarrow>
            (panics (ByUnmarshallingJSON Decode v r resp w)
               \<longleftrightarrow> resp = None \<or> (\<exists>a. resp = Some a \<and> Body (responses w1 a) = None)))
       \<and> (err = None \<longrightarrow>
            (panics (WithErrorUnlessStatusCode codes r resp w)
               \<longleftrightarrow> resp = None
                  \<or> (\<exists>a. resp = Some a \<and> StatusCode (responses w1 a) \<notin> set codes
                         \<and> Request (responses w1 a) = None)))
       \<and> (err \<noteq> None \<longrightarrow>
            \<not> panics (ByUnmarshallingJSON Decode v r resp w)
            \<and> \<not> panics (WithErrorUnlessStatusCode codes r resp w))"
proof -
  have closing: "\<not> panics (ByClosing r resp w)"
    using inner by (simp add: ByClosing_def panics_def split: option.split)
  have closing_if: "\<not> panics (ByClosingIfError r resp w)"
    using inner by (simp add: ByClosingIfError_def panics_def split: option.split)
  have json: "panics (ByUnmarshallingJSON Decode v r resp w)
               \<longleftrightarrow> resp = None \<or> (\<exists>a. resp = Some a \<and> Body (responses w1 a) = None)"
    if "err = None"
    using inner that
    by (simp add: ByUnmarshallingJSON_def panics_def Let_def split: option.split)
  have status: "panics (WithErrorUnlessStatusCode codes r resp w)
               \<longleftrightarrow> resp = None
                  \<or> (\<exists>a. resp = Some a \<and> StatusCode (responses w1 a) \<notin> set codes
                         \<and> Request (responses w1 a) = None)"
    if "err = None"
    using inner that
    by (simp add: WithErrorUnlessStatusCode_def ResponseHasStatusCode_def panics_def Let_def
        split: option.split)
  have failed: "\<not> panics (ByUnmarshallingJSON Decode v r resp w)
            \<and> \<not> panics (WithErrorUnlessStatusCode codes r resp w)"
    if "err \<noteq> None"
    using inner that
    by (auto simp add: ByUnmarshallingJSON_def WithErrorUnlessStatusCode_def panics_def)
  from closing closing_if json status failed show ?thesis by blast
qed

theorem C10_nil_dereference_witness:
  "\<not> panics (ByClosing base_responder None (example_world (example_response 404 ''404 Not Found'' None) ''''))
   \<and> \<not> panics (ByClosingIfError base_responder None (example_world (example_response 404 ''404 Not Found'' None) ''''))
   \<and> panics (ByUnmarshallingJSON decode_target 0 base_responder None
        (example_world (example_response 404 ''404 Not Found'' None) ''''))
   \<and> panics (WithErrorUnlessStatusCode [200] base_responder None
        (example_world (example_response 404 ''404 Not Found'' None) ''''))
   \<and> panics (WithErrorUnlessStatusCode [200] base_responder (Some 0)
        (example_world (example_response 404 ''404 Not Found'' None) ''''))
   \<and> \<not> panics (WithErrorUnlessStatusCode [404] base_responder (Some 0)
        (example_world (example_response 404 ''404 Not Found'' None) ''''))
   \<and> \<not> panics (ByUnmarshallingJSON decode_target 0 base_responder (Some 0)
        (example_world (example_response 404 ''404 Not Found'' None) ''''))"
proof -
  let ?w = "example_world (example_response 404 ''404 Not Found'' None) ''''"
  have n: "base_responder None ?w = Returned None ?w"
    by (simp add: base_responder_def)
  have s: "base_responder (Some 0) ?w = Returned None ?w"
    by (simp add: base_responder_def)
  from C10_nil_dereference [where r = base_responder and resp = None and w = ?w
        and Decode = decode_target and v = 0 and codes = "[200]", OF n]
    C10_nil_dereference [where r = base_responder and resp = "Some 0" and w = ?w
        and Decode = decode_target and v = 0 and codes = "[200]", OF s]
    C10_nil_dereference [where r = base_responder and resp = "Some 0" and w = ?w
        and Decode = decode_target and v = 0 and codes = "[404]", OF s]
  show ?thesis
    by (simp add: example_world_def example_response_def)
qed

text \<open>
  C5. For every inner responder that returns, every target and every non-nil response with
  a body, and whatever the decoder does: the responder built by \<open>ByUnmarshallingJSON\<close>
  decodes only after an inner success (after an inner error it hands on that error and the
  inner store, body and target untouched). When the decoder succeeds it returns success
  and the target holds the decoded value; when the decoder fails it returns the composite
  error whose message is made of the decoder's error and, between double quotes, the bytes
  read from the body so far. Either way the bytes read are gone from the body.
\<close>

theorem C5_ByUnmarshallingJSON:
  assumes inner: "r (Some a) w = Returned err w1"
    and body: "Body (responses w1 a) = Some b"
    and dec: "Decode (streams w1 b) (targets w1 v) = d"
  shows "(err \<noteq> None \<longrightarrow> ByUnmarshallingJSON Decode v r (Some a) w = Returned err w1)
       \<and> (err = None \<and> derr d = None \<longrightarrow>
            (\<exists>w3. ByUnmarshallingJSON Decode v r (Some a) w = Returned None w3
                  \<and> targets w3 v = dval d))
       \<and> (\<forall>m. err = None \<and> derr d = Some m \<longrightarrow>
            (\<exists>w3. ByUnmarshallingJSON Decode v r (Some a) w
                  = Returned (Some (ErrorString (''Error ('' @ m @ '') occurred decoding JSON (''
                      @ [CHR 0x22] @ take (nread d) (content (streams w1 b)) @ [CHR 0x22] @ '')''))) w3))
       \<and> (err = None \<longrightarrow>
            content (streams (store_of (ByUnmarshallingJSON Decode v r (Some a) w)) b)
              = drop (nread d) (content (streams w1 b))
            \<and> calls (store_of (ByUnmarshallingJSON Decode v r (Some a) w))
              = calls w1 @ [JSONDecode (Some b) v])"
proof (cases err)
  case (Some e)
  with inner show ?thesis by (simp add: ByUnmarshallingJSON_def)
next
  case None
  note ok = this
  show ?thesis
  proof (cases "derr d")
    case None
    with inner body dec ok show ?thesis
      by (simp add: ByUnmarshallingJSON_def Let_def store_of_def)
  next
    case (Some m)
    with inner body dec ok show ?thesis
      by (simp add: ByUnmarshallingJSON_def Let_def store_of_def decode_error_def)
  qed
qed

theorem C5_ByUnmarshallingJSON_witness:
  "(\<exists>w3. ByUnmarshallingJSON decode_target 3 base_responder (Some 0)
            (example_world (example_response 200 ''200 OK'' None) complete_payload)
          = Returned None w3 \<and> targets w3 3 = Target 1)
   \<and> (\<exists>w3. ByUnmarshallingJSON decode_target 3 base_responder (Some 0)
            (example_world (example_response 200 ''200 OK'' None) truncated_payload)
          = Returned (Some (ErrorString (''Error (unexpected EOF) occurred decoding JSON (''
               @ [CHR 0x22] @ truncated_payload @ [CHR 0x22] @ '')''))) w3)
   \<and> ByUnmarshallingJSON decode_target 3 failing_responder (Some 0)
         (example_world (example_response 200 ''200 OK'' None) complete_payload)
       = Returned (Some (ErrorString ''inner failed''))
           (example_world (example_response 200 ''200 OK'' None) complete_payload)"
proof -
  let ?good = "example_world (example_response 200 ''200 OK'' None) complete_payload"
  let ?bad = "example_world (example_response 200 ''200 OK'' None) truncated_payload"
  have i1: "base_responder (Some 0) ?good = Returned None ?good"
    by (simp add: base_responder_def)
  have i2: "base_responder (Some 0) ?bad = Returned None ?bad"
    by (simp add: base_responder_def)
  have i3: "failing_responder (Some 0) ?good = Returned (Some (ErrorString ''inner failed'')) ?good"
    by (simp add: failing_responder_def)
  have b1: "Body (responses ?good 0) = Some 7"
    by (simp add: example_world_def example_response_def)
  have b2: "Body (responses ?bad 0) = Some 7"
    by (simp add: example_world_def example_response_def)
  have d1: "decode_target (streams ?good 7) (targets ?good 3)
      = \<lparr>nread = 7, derr = None, dval = Target 1\<rparr>"
    by (simp add: decode_target_def example_world_def complete_payload_def isDigit_def
        digits_value_def Let_def)
  have d2: "decode_target (streams ?bad 7) (targets ?bad 3)
      = \<lparr>nread = 5, derr = Some ''unexpected EOF'', dval = Target 0\<rparr>"
    by (simp add: decode_target_def example_world_def truncated_payload_def Let_def)
  from C5_ByUnmarshallingJSON [where r = base_responder and Decode = decode_target, OF i1 b1 d1]
    C5_ByUnmarshallingJSON [where r = base_responder and Decode = decode_target, OF i2 b2 d2]
    C5_ByUnmarshallingJSON [where r = failing_responder and Decode = decode_target, OF i3 b1 d1]
  show ?thesis
    by (simp add: example_world_def truncated_payload_def)
qed

lemma of_char_toLower: "isUpper c \<Longrightarrow> (of_char (toLower c) :: nat) = of_char c + 32"
  by (simp add: toLower_def isUpper_def)

lemma toUpper_toLower: "isUpper c \<Longrightarrow> toUpper (toLower c) = c"
  by (simp add: toUpper_def isLower_def of_char_toLower) (simp add: isUpper_def)

lemma isLower_toLower: "isUpper c \<Longrightarrow> isLower (toLower c)"
  by (simp add: isLower_def of_char_toLower) (simp add: isUpper_def)

lemma not_upper_lower: "isUpper c \<Longrightarrow> \<not> isLower c" "isLower c \<Longrightarrow> \<not> isUpper c"
  by (simp_all add: isUpper_def isLower_def)

lemma not_upper_toLower: "\<not> isUpper (toLower c)"
  by (cases "isUpper c") (simp_all add: not_upper_lower isLower_toLower, simp add: toLower_def)

lemma toLower_eq_cases:
  assumes "toLower c = toLower c'"
  shows "c = c' \<or> (isUpper c \<and> c' = toLower c) \<or> (isUpper c' \<and> c = toLower c')"
proof (cases "isUpper c")
  case True
  note u = this
  show ?thesis
  proof (cases "isUpper c'")
    case True
    from assms have "toUpper (toLower c) = toUpper (toLower c')" by simp
    with u True show ?thesis by (simp add: toUpper_toLower)
  next
    case False
    with assms u show ?thesis by (simp add: toLower_def)
  qed
next
  case False
  with assms show ?thesis by (cases "isUpper c'") (auto simp add: toLower_def)
qed

lemma canonical_char:
  assumes "toLower c = toLower c'"
  shows "(if upper \<and> isLower c then toUpper c else if \<not> upper \<and> isUpper c then toLower c else c)
       = (if upper \<and> isLower c' then toUpper c' else if \<not> upper \<and> isUpper c' then toLower c' else c')"
  using toLower_eq_cases [OF assms]
  by (auto simp add: toUpper_toLower isLower_toLower not_upper_lower not_upper_toLower)

lemma canonicalize_case_insensitive:
  "map toLower s = map toLower s' \<Longrightarrow> canonicalize upper s = canonicalize upper s'"
proof (induction s arbitrary: s' upper)
  case Nil
  then show ?case by simp
next
  case (Cons c cs)
  then obtain c' cs' where s': "s' = c' # cs'" and c: "toLower c = toLower c'"
    and cs: "map toLower cs = map toLower cs'"
    by (cases s') auto
  from canonical_char [OF c, of upper] Cons.IH [OF cs] show ?case
    by (simp add: s' Let_def)
qed

lemma valid_toLower: "validHeaderFieldByte (toLower c) = validHeaderFieldByte c"
proof (cases "isUpper c")
  case True
  then show ?thesis
    by (simp add: validHeaderFieldByte_def isLower_toLower)
next
  case False
  then show ?thesis by (simp add: toLower_def)
qed

lemma list_all_valid_toLower:
  "list_all validHeaderFieldByte (map toLower s) = list_all validHeaderFieldByte s"
  by (induction s) (simp_all add: valid_toLower)

lemma CanonicalHeaderKey_case_insensitive:
  assumes same: "map toLower s = map toLower s'"
    and valid: "list_all validHeaderFieldByte s"
  shows "CanonicalHeaderKey s = CanonicalHeaderKey s'"
proof -
  from same have "list_all validHeaderFieldByte (map toLower s)
      = list_all validHeaderFieldByte (map toLower s')" by simp
  with valid have "list_all validHeaderFieldByte s'" by (simp add: list_all_valid_toLower)
  with valid canonicalize_case_insensitive [OF same] show ?thesis
    by (simp add: CanonicalHeaderKey_def)
qed

lemma of_char_toUpper:
  assumes "isLower c"
  shows "(of_char (toUpper c) :: nat) = of_char c - 32"
proof -
  from assms have "(of_char c :: nat) - 32 < 256" unfolding isLower_def by arith
  with assms show ?thesis by (simp add: toUpper_def)
qed

lemma toLower_toUpper:
  assumes "isLower c"
  shows "toLower (toUpper c) = c"
proof -
  from assms have bounds: "97 \<le> (of_char c :: nat)" "(of_char c :: nat) \<le> 122"
    by (simp_all add: isLower_def)
  then have "65 \<le> (of_char c :: nat) - 32 \<and> (of_char c :: nat) - 32 \<le> 90"
    by arith
  then have upper: "isUpper (toUpper c)"
    by (simp add: isUpper_def of_char_toUpper [OF assms])
  from bounds have "(of_char c :: nat) - 32 + 32 = of_char c" by arith
  with upper show ?thesis
    by (simp add: toLower_def of_char_toUpper [OF assms])
qed

lemma toLower_toLower: "toLower (toLower c) = toLower c"
  using not_upper_toLower [of c] by (simp add: toLower_def)

lemma toLower_canonicalize: "map toLower (canonicalize upper s) = map toLower s"
proof (induction s arbitrary: upper)
  case Nil
  show ?case by simp
next
  case (Cons c cs)
  have "toLower (if upper \<and> isLower c then toUpper c
                 else if \<not> upper \<and> isUpper c then toLower c else c) = toLower c"
    by (simp add: toLower_toUpper toLower_toLower) (simp add: toLower_def not_upper_lower)
  with Cons.IH show ?case by (simp add: Let_def)
qed

lemma toLower_CanonicalHeaderKey: "map toLower (CanonicalHeaderKey s) = map toLower s"
  by (simp add: CanonicalHeaderKey_def toLower_canonicalize)

text \<open>
  C8, as the code has it. \<open>ExtractHeader\<close> indexes the header map at the canonical form of
  the name and nowhere else. It returns the empty sequence when the response is nil, when
  its header map is nil and when the map has no entry at the canonical name, in
  particular when no stored name equals the name up to the case of its letters; it
  returns the values of the entry at the canonical name, in their order, otherwise. For a
  name made of header field bytes the lookup does not depend on the case of its letters:
  it finds the entry stored under a canonical key that differs from the name only in
  case, and every other spelling of the name gives the same answer. The result is a
  sequence in every case; there is no error outcome. \<open>ExtractHeaderValue\<close> returns the
  first element of that sequence, or the empty string when it is empty.
\<close>

theorem C8_ExtractHeader:
  "ExtractHeader header None w = []
   \<and> (Header (responses w a) = None \<longrightarrow> ExtractHeader header (Some a) w = [])
   \<and> (Header (responses w a) = Some h \<and> h (CanonicalHeaderKey header) = None \<longrightarrow>
        ExtractHeader header (Some a) w = [])
   \<and> (Header (responses w a) = Some h \<and> h (CanonicalHeaderKey header) = Some vs \<longrightarrow>
        ExtractHeader header (Some a) w = vs)
   \<and> (Header (responses w a) = Some h
        \<and> (\<forall>k. map toLower k = map toLower header \<longrightarrow> h k = None) \<longrightarrow>
        ExtractHeader header (Some a) w = [])
   \<and> (Header (responses w a) = Some h \<and> h key = Some vs \<and> CanonicalHeaderKey key = key
        \<and> list_all validHeaderFieldByte header \<and> map toLower header = map toLower key \<longrightarrow>
        ExtractHeader header (Some a) w = vs)
   \<and> (list_all validHeaderFieldByte header \<and> map toLower header = map toLower header' \<longrightarrow>
        ExtractHeader header resp w = ExtractHeader header' resp w)
   \<and> ExtractHeaderValue header resp w
        = (case ExtractHeader header resp w of [] \<Rightarrow> '''' | x # xs \<Rightarrow> x)"
proof -
  have same: "ExtractHeader header resp w = ExtractHeader header' resp w"
    if "list_all validHeaderFieldByte header" "map toLower header = map toLower header'"
    using CanonicalHeaderKey_case_insensitive [OF that(2) that(1)]
    by (simp add: ExtractHeader_def split: option.split)
  have stored: "ExtractHeader header (Some a) w = vs"
    if "Header (responses w a) = Some h" "h key = Some vs" "CanonicalHeaderKey key = key"
      "list_all validHeaderFieldByte header" "map toLower header = map toLower key"
    using CanonicalHeaderKey_case_insensitive [OF that(5) that(4)] that(1,2,3)
    by (simp add: ExtractHeader_def)
  have absent: "ExtractHeader header (Some a) w = []"
    if "Header (responses w a) = Some h" "\<forall>k. map toLower k = map toLower header \<longrightarrow> h k = None"
  proof -
    from that(2) toLower_CanonicalHeaderKey [of header]
    have "h (CanonicalHeaderKey header) = None" by blast
    with that(1) show ?thesis by (simp add: ExtractHeader_def)
  qed
  have first: "ExtractHeaderValue header resp w
        = (case ExtractHeader header resp w of [] \<Rightarrow> '''' | x # xs \<Rightarrow> x)"
    by (simp add: ExtractHeaderValue_def Let_def split: list.split)
  have direct: "ExtractHeader header None w = []
   \<and> (Header (responses w a) = None \<longrightarrow> ExtractHeader header (Some a) w = [])
   \<and> (Header (responses w a) = Some h \<and> h (CanonicalHeaderKey header) = None \<longrightarrow>
        ExtractHeader header (Some a) w = [])
   \<and> (Header (responses w a) = Some h \<and> h (CanonicalHeaderKey header) = Some vs \<longrightarrow>
        ExtractHeader header (Some a) w = vs)"
    by (simp add: ExtractHeader_def)
  from direct same stored absent first show ?thesis
    by blast
qed

theorem C8_ExtractHeader_witness:
  "ExtractHeader ''x-test'' (Some 0) (example_world (example_response 200 ''200 OK'' None) '''')
     = [''v1'', ''v2'']
   \<and> ExtractHeader ''X-TEST'' (Some 0) (example_world (example_response 200 ''200 OK'' None) '''')
     = [''v1'', ''v2'']
   \<and> ExtractHeaderValue ''X-Test'' (Some 0) (example_world (example_response 200 ''200 OK'' None) '''')
     = ''v1''
   \<and> ExtractHeaderValue ''Missing'' (Some 0) (example_world (example_response 200 ''200 OK'' None) '''')
     = ''''
   \<and> ExtractHeaderValue ''X-Test'' None (example_world (example_response 200 ''200 OK'' None) '''')
     = ''''"
proof -
  let ?w = "example_world (example_response 200 ''200 OK'' None) ''''"
  let ?h = "[''X-Test'' \<mapsto> [''v1'', ''v2'']]"
  have hdr: "Header (responses ?w 0) = Some ?h"
    by (simp add: example_world_def example_response_def)
  have stored: "?h ''X-Test'' = Some [''v1'', ''v2'']"
    by simp
  have key: "CanonicalHeaderKey ''X-Test'' = ''X-Test''"
    by (simp add: CanonicalHeaderKey_def validHeaderFieldByte_def isLower_def isUpper_def
        isDigit_def toUpper_def toLower_def Let_def)
  have valid: "list_all validHeaderFieldByte ''x-test''"
    by (simp add: validHeaderFieldByte_def isLower_def isUpper_def isDigit_def)
  have lower: "map toLower ''x-test'' = map toLower ''X-Test''"
    by code_simp
  have upper: "map toLower ''x-test'' = map toLower ''X-TEST''"
    by code_simp
  have missing: "?h (CanonicalHeaderKey ''Missing'') = None"
    by (simp add: CanonicalHeaderKey_def validHeaderFieldByte_def isLower_def isUpper_def
        isDigit_def toUpper_def toLower_def Let_def)
  note lookup = C8_ExtractHeader [where header = "''x-test''" and w = ?w and a = 0 and h = ?h
      and key = "''X-Test''" and vs = "[''v1'', ''v2'']" and header' = "''X-TEST''"
      and resp = "Some 0"]
  from lookup hdr stored key valid lower
  have e1: "ExtractHeader ''x-test'' (Some 0) ?w = [''v1'', ''v2'']"
    by blast
  from lookup valid upper e1
  have e2: "ExtractHeader ''X-TEST'' (Some 0) ?w = [''v1'', ''v2'']"
    by metis
  from stored key have canonical: "?h (CanonicalHeaderKey ''X-Test'') = Some [''v1'', ''v2'']"
    by simp
  from C8_ExtractHeader [where header = "''X-Test''" and w = ?w and a = 0 and h = ?h
      and vs = "[''v1'', ''v2'']" and resp = "Some 0"] hdr canonical
  have e3: "ExtractHeaderValue ''X-Test'' (Some 0) ?w = ''v1''"
    by simp
  from C8_ExtractHeader [where header = "''Missing''" and w = ?w and a = 0 and h = ?h
      and resp = "Some 0"] hdr missing
  have e4: "ExtractHeaderValue ''Missing'' (Some 0) ?w = ''''"
    by simp
  from C8_ExtractHeader [where header = "''X-Test''" and w = ?w and resp = None]
  have e5: "ExtractHeaderValue ''X-Test'' None ?w = ''''"
    by simp
  from e1 e2 e3 e4 e5 show ?thesis
    by blast
qed

text \<open>
  C8 as stated, for every header name and every response, fails. A header map that stores
  the name \<^verbatim>\<open>x-test\<close> in lower case has the name, yet \<open>ExtractHeader\<close> looks at
  \<^verbatim>\<open>X-Test\<close> and returns nothing. A name with a space is not canonicalized, so
  \<^verbatim>\<open>x y\<close> and \<^verbatim>\<open>X Y\<close>, which differ only in case, give different answers.
\<close>

theorem C8_every_name_counterexample:
  "[''x-test'' \<mapsto> [''v1'', ''v2'']] ''x-test'' = Some [''v1'', ''v2'']
   \<and> ExtractHeader ''x-test'' (Some 0)
        (example_world ((example_response 200 ''200 OK'' None)
           \<lparr>Header := Some [''x-test'' \<mapsto> [''v1'', ''v2'']]\<rparr>) '''') = []
   \<and> map toLower ''x y'' = map toLower ''X Y''
   \<and> ExtractHeader ''x y'' (Some 0)
        (example_world ((example_response 200 ''200 OK'' None)
           \<lparr>Header := Some [''x y'' \<mapsto> [''v1'']]\<rparr>) '''') = [''v1'']
   \<and> ExtractHeader ''X Y'' (Some 0)
        (example_world ((example_response 200 ''200 OK'' None)
           \<lparr>Header := Some [''x y'' \<mapsto> [''v1'']]\<rparr>) '''') = []"
proof -
  have c1: "CanonicalHeaderKey ''x-test'' = ''X-Test''"
    by code_simp
  have c2: "CanonicalHeaderKey ''x y'' = ''x y''"
    by code_simp
  have c3: "CanonicalHeaderKey ''X Y'' = ''X Y''"
    by code_simp
  have l: "map toLower ''x y'' = map toLower ''X Y''"
    by code_simp
  from c1 c2 c3 l show ?thesis
    by (simp add: ExtractHeader_def example_world_def example_response_def)
qed

end
